theory Spec2Isabelle
  imports Main
begin

section \<open>Data model\<close>

text \<open>
  A shallow embedding of \<^verbatim>\<open>packages/hop-node/src/watchers/BondTransferRootWatcher.ts\<close>.

  Amounts are ethers \<^verbatim>\<open>BigNumber\<close>s: arbitrary-precision integers whose \<^verbatim>\<open>sub\<close> may go
  below zero and whose \<^verbatim>\<open>lt\<close> compares the signed values, so they are \<^typ>\<open>int\<close>.
  Chain identifiers and timestamps are JavaScript numbers holding integers far below
  \<open>2^53\<close>, where the arithmetic of the source is exact; they are \<^typ>\<open>int\<close> as well.

  A stored transfer root carries the fields the watcher reads. The source reads
  \<^verbatim>\<open>transferIds\<close> through \<^verbatim>\<open>transferIds || []\<close> and \<^verbatim>\<open>transferIds!\<close>: the field may be
  undefined, so it is an option.
\<close>

record TransferRoot =
  transferRootId :: string
  transferRootHash :: string
  totalAmount :: int
  destinationChainId :: int
  committedAt :: int
  sourceChainId :: int
  transferIds :: "string list option"

text \<open>
  What a rejected promise or a \<^verbatim>\<open>throw\<close> carries: an \<^verbatim>\<open>Error\<close> with its message, or the
  \<^verbatim>\<open>TypeError\<close> the runtime raises when a method or an iteration is applied to
  \<^verbatim>\<open>undefined\<close>.
\<close>

datatype error = Error string | TypeError

text \<open>The partial fields handed to \<^verbatim>\<open>db.transferRoots.update\<close>.\<close>

datatype patch = IsNotFound bool | SentBondTxAt int

text \<open>
  The effects of an evaluation that leave the watcher, in the order they happen: logger
  calls with their level, notifier calls, store writes, and the two transactions. A
  message keeps the constant part of the source's template string.
\<close>

datatype level = LDebug | LInfo | LWarn | LError

datatype event =
    Log level string
  | NotifyInfo string
  | NotifyError string
  | DbUpdate string patch
  | WithdrawFromVaultAndStake int int
  | BondTransferRoot string int int

text \<open>
  The \<^verbatim>\<open>return\<close> statement at which \<^verbatim>\<open>checkTransfersCommitted\<close> resolves. The source
  resolves with no value at each of them; the model keeps which one it was.
\<close>

datatype outcome =
    TooEarly
  | AlreadyBonded
  | HashMismatch
  | NotEnoughCredit
  | DrySkip
  | Sent string

text \<open>
  The watcher object with its collaborators, none of which is part of the file: the
  hub-chain bridge client, the store, the liquidity watcher, the sibling watcher of the
  destination chain, the merkle tree, the root-id hash and the global configuration.
  They are parameters. A read takes the world \<open>'w\<close> it observes and is the value it
  resolves with; the two transactions return the world they leave, with the error when
  they reject. The sibling watcher of a destination chain is taken to exist.
\<close>

record 'w watcher =
  chainId :: int
  tokenSymbol :: string
  dryMode :: bool
  bondChainId :: int
  chainIdToSlug :: "int \<Rightarrow> string"
  vaultConfig :: "string \<rightharpoonup> (string \<rightharpoonup> bool option)"
  getTransferRootId :: "string \<Rightarrow> int \<Rightarrow> string"
  getHexRoot :: "string list \<Rightarrow> string"
  dateNow :: "'w \<Rightarrow> int"
  getMinTransferRootBondDelaySeconds :: "'w \<Rightarrow> int"
  isTransferRootIdBonded :: "'w \<Rightarrow> string \<Rightarrow> bool"
  getBondForTransferAmount :: "'w \<Rightarrow> int \<Rightarrow> int"
  getBaseAvailableCreditIncludingVault :: "'w \<Rightarrow> int \<Rightarrow> int"
  getVaultBalance :: "'w \<Rightarrow> int \<Rightarrow> int"
  getUnbondedTransferRoots :: "'w \<Rightarrow> TransferRoot list"
  getByTransferRootId :: "'w \<Rightarrow> string \<Rightarrow> TransferRoot option"
  getTransferRootsFromTwoWeeks :: "'w \<Rightarrow> TransferRoot list"
  update :: "string \<Rightarrow> patch \<Rightarrow> 'w \<Rightarrow> 'w"
  withdrawFromVaultAndStake :: "int \<Rightarrow> int \<Rightarrow> 'w \<Rightarrow> error option \<times> 'w"
  bondTransferRoot :: "string \<Rightarrow> int \<Rightarrow> int \<Rightarrow> 'w \<Rightarrow> (error + string) \<times> 'w"

section \<open>The reorg-safety validator\<close>

text \<open>
  \<^verbatim>\<open>String.prototype.toLowerCase\<close> on the identifiers of the store, which are
  hexadecimal strings: the ASCII capitals are mapped to their small letters.
\<close>

definition toLowerCaseChar :: "char \<Rightarrow> char" where
  "toLowerCaseChar ch =
     (let n = (of_char ch :: nat) in if 65 \<le> n \<and> n \<le> 90 then char_of (n + 32) else ch)"

definition toLowerCase :: "string \<Rightarrow> string" where
  "toLowerCase s = map toLowerCaseChar s"

text \<open>
  The two nested \<^verbatim>\<open>for\<close> loops of \<^verbatim>\<open>isPreTransactionDataValid\<close> that fill
  \<^verbatim>\<open>dbTransferIds\<close>. A record of another source chain is skipped; iterating over the
  undefined \<^verbatim>\<open>transferIds\<close> of a record of this chain raises.
\<close>

fun collectDbTransferIds :: "int \<Rightarrow> TransferRoot list \<Rightarrow> string list \<Rightarrow> error + string list" where
  "collectDbTransferIds cid [] dbTransferIds = Inr dbTransferIds"
| "collectDbTransferIds cid (dbTransferRoot # rest) dbTransferIds =
     (if sourceChainId dbTransferRoot \<noteq> cid then collectDbTransferIds cid rest dbTransferIds
      else (case transferIds dbTransferRoot of
              None \<Rightarrow> Inl TypeError
            | Some ids \<Rightarrow> collectDbTransferIds cid rest (dbTransferIds @ map toLowerCase ids)))"

definition areTransferIdsUnique :: "string list \<Rightarrow> string list \<Rightarrow> bool" where
  "areTransferIdsUnique ids dbTransferIds =
     list_all (\<lambda>transferId. length (filter (\<lambda>dbTransferId. dbTransferId = transferId) dbTransferIds) = 1) ids"

definition isPreTransactionDataValid ::
  "'w watcher \<Rightarrow> 'w \<Rightarrow> string \<Rightarrow> int \<Rightarrow> int \<Rightarrow> (error + bool) \<times> event list" where
  "isPreTransactionDataValid this w rootHash destChainId amount =
     (let calculatedTransferRootId = getTransferRootId this rootHash amount in
      case getByTransferRootId this w calculatedTransferRootId of
        None \<Rightarrow> (Inr False, [Log LError ''Calculated calculatedTransferRootId does not match transferRootId in db''])
      | Some calculatedDbTransferRoot \<Rightarrow>
          if transferRootId calculatedDbTransferRoot \<noteq> calculatedTransferRootId
          then (Inr False, [Log LError ''Calculated calculatedTransferRootId does not match transferRootId in db''])
          else if destinationChainId calculatedDbTransferRoot \<noteq> destChainId
          then (Inr False, [Log LError ''destinationChainId does not match destinationChainId in db''])
          else (case transferIds calculatedDbTransferRoot of
                  None \<Rightarrow> (Inl TypeError, [])
                | Some ids \<Rightarrow>
                    (case collectDbTransferIds (chainId this) (getTransferRootsFromTwoWeeks this w) [] of
                       Inl e \<Rightarrow> (Inl e, [])
                     | Inr dbTransferIds \<Rightarrow>
                         if \<not> areTransferIdsUnique (map toLowerCase ids) dbTransferIds
                         then (Inr False, [Log LError ''transferIds are either not unique and exist in multiple transferRoots or do not exist in any root''])
                         else (Inr True, []))))"

section \<open>Credit and the vault\<close>

definition getAvailableCreditForBond :: "'w watcher \<Rightarrow> 'w \<Rightarrow> int \<Rightarrow> int" where
  "getAvailableCreditForBond this w destChainId =
     (let baseAvailableCredit = getBaseAvailableCreditIncludingVault this w destChainId
      in baseAvailableCredit)"

text \<open>
  The guard \<^verbatim>\<open>globalConfig.vault[tokenSymbol]?.[chainIdToSlug(destinationChainId)]?.autoWithdraw\<close>:
  truthy only when the token, the chain and the flag are all there and the flag is true.
\<close>

definition autoWithdraw :: "'w watcher \<Rightarrow> int \<Rightarrow> bool" where
  "autoWithdraw this destChainId =
     (case vaultConfig this (tokenSymbol this) of
        None \<Rightarrow> False
      | Some perChain \<Rightarrow>
          (case perChain (chainIdToSlug this destChainId) of
             None \<Rightarrow> False
           | Some flag \<Rightarrow> (case flag of None \<Rightarrow> False | Some b \<Rightarrow> b)))"

text \<open>
  \<^verbatim>\<open>withdrawFromVaultIfNeeded\<close>. The body runs under the watcher's mutex; one evaluation
  at a time is what the model runs, so the lock is not a step of its own.
\<close>

definition withdrawFromVaultIfNeeded ::
  "'w watcher \<Rightarrow> int \<Rightarrow> int \<Rightarrow> 'w \<Rightarrow> (error + unit) \<times> 'w \<times> event list" where
  "withdrawFromVaultIfNeeded this destChainId bondAmount w =
     (if \<not> autoWithdraw this destChainId then (Inr (), w, [])
      else
        let availableCredit = getAvailableCreditForBond this w destChainId;
            vaultBalance = getVaultBalance this w destChainId;
            shouldWithdraw = availableCredit - vaultBalance < bondAmount;
            evs = [Log LDebug ''availableCredit, vaultBalance, bondAmount, shouldWithdraw'']
        in if shouldWithdraw then
             let evs' = evs @ [NotifyInfo ''attempting withdrawFromVaultAndStake'',
                               Log LInfo ''attempting withdrawFromVaultAndStake'',
                               WithdrawFromVaultAndStake destChainId vaultBalance]
             in (case withdrawFromVaultAndStake this destChainId vaultBalance w of
                   (None, w') \<Rightarrow> (Inr (), w', evs')
                 | (Some err, w') \<Rightarrow>
                     (Inl err, w', evs' @ [NotifyError ''withdrawFromVaultAndStake error'',
                                           Log LError ''withdrawFromVaultAndStake error'']))
           else (Inr (), w, evs))"

section \<open>Sending the bond\<close>

definition sendBondTransferRoot ::
  "'w watcher \<Rightarrow> string \<Rightarrow> int \<Rightarrow> int \<Rightarrow> 'w \<Rightarrow> (error + string) \<times> 'w \<times> event list" where
  "sendBondTransferRoot this rootHash destChainId amount w =
     (case isPreTransactionDataValid this w rootHash destChainId amount of
        (Inl e, evs) \<Rightarrow> (Inl e, w, evs)
      | (Inr isValid, evs) \<Rightarrow>
          if \<not> isValid
          then (Inl (Error ''Possible reorg detected. bondTransferRoot tx not sent''), w, evs)
          else (case bondTransferRoot this rootHash destChainId amount w of
                  (res, w') \<Rightarrow> (res, w', evs @ [BondTransferRoot rootHash destChainId amount])))"

section \<open>Evaluating one root\<close>

definition checkTransfersCommitted ::
  "'w watcher \<Rightarrow> string \<Rightarrow> string \<Rightarrow> int \<Rightarrow> int \<Rightarrow> int \<Rightarrow> int \<Rightarrow> string list option \<Rightarrow> 'w
     \<Rightarrow> (error + outcome) \<times> 'w \<times> event list" where
  "checkTransfersCommitted this rootId rootHash amount destChainId committed srcChainId ids w =
     (let minDelaySec = getMinTransferRootBondDelaySeconds this w;
          minDelayMs = minDelaySec * 1000;
          committedAtMs = committed * 1000;
          delta = dateNow this w - committedAtMs - minDelayMs;
          shouldBond = delta > 0
      in if \<not> shouldBond then (Inr TooEarly, w, [Log LDebug ''too early to bond''])
      else if isTransferRootIdBonded this w rootId then
        (Inr AlreadyBonded, update this rootId (IsNotFound True) w,
         [Log LWarn ''checkTransfersCommitted already bonded. marking item not found.'',
          DbUpdate rootId (IsNotFound True)])
      else
        let evs1 = [Log LInfo ''source transferRootId transferRootHash'',
                    Log LDebug ''committedAt:'',
                    Log LDebug ''destinationChainId:'',
                    Log LDebug ''sourceChainId:'',
                    Log LDebug ''transferRootId:'',
                    Log LDebug ''transferRootHash:'',
                    Log LDebug ''totalAmount:'',
                    Log LDebug ''transferRootId:''];
            pendingTransfers = (case ids of None \<Rightarrow> [] | Some l \<Rightarrow> l);
            evs2 = evs1 @ [Log LDebug ''transferRootHash transferIds:''];
            (mismatch, evs3) =
               (if length pendingTransfers > 0 then
                  let calculated = getHexRoot this pendingTransfers;
                      evsH = evs2 @ [Log LDebug ''calculated transfer root hash:'']
                  in if calculated \<noteq> rootHash
                     then (True, evsH @ [Log LError ''calculated transfer root hash does not match''])
                     else (False, evsH)
                else (False, evs2))
        in if mismatch then (Inr HashMismatch, w, evs3)
        else
          let bondAmount = getBondForTransferAmount this w amount;
              availableCredit = getAvailableCreditForBond this w (bondChainId this);
              notEnoughCredit = availableCredit < bondAmount
          in if notEnoughCredit then
               (Inr NotEnoughCredit, w,
                evs3 @ [Log LError ''not enough credit to bond transferRoot'',
                        NotifyError ''not enough credit to bond transferRoot''])
          else if dryMode this then
               (Inr DrySkip, w, evs3 @ [Log LWarn ''dry: skipping bondTransferRoot''])
          else
            (case withdrawFromVaultIfNeeded this destChainId bondAmount w of
               (Inl e, w1, evsV) \<Rightarrow> (Inl e, w1, evs3 @ evsV)
             | (Inr u, w1, evsV) \<Rightarrow>
                 let sentAt = dateNow this w1;
                     w2 = update this rootId (SentBondTxAt sentAt) w1;
                     evs4 = evs3 @ evsV @ [Log LDebug ''attempting to bond transfer root id'',
                                           DbUpdate rootId (SentBondTxAt sentAt)]
                 in (case sendBondTransferRoot this rootHash destChainId amount w2 of
                       (Inr tx, w3, evsS) \<Rightarrow>
                         (Inr (Sent tx), w3,
                          evs4 @ evsS @ [Log LInfo ''L1 bondTransferRoot'', NotifyInfo ''L1 bondTransferRoot''])
                     | (Inl err, w3, evsS) \<Rightarrow>
                         (Inl err, w3, evs4 @ evsS @ [Log LError ''sendBondTransferRoot error:'']))))"

section \<open>The poll cycle\<close>

text \<open>
  The \<^verbatim>\<open>for\<close> loop of \<^verbatim>\<open>checkTransfersCommittedFromDb\<close>: the coarse credit filter. A
  call of \<^verbatim>\<open>checkTransfersCommitted\<close> suspends at its first \<^verbatim>\<open>await\<close> before any effect,
  so the whole loop reads the credit of the world the cycle started in.
\<close>

fun coarseFilter :: "'w watcher \<Rightarrow> 'w \<Rightarrow> TransferRoot list \<Rightarrow> TransferRoot list \<times> event list" where
  "coarseFilter this w [] = ([], [])"
| "coarseFilter this w (dbTransferRoot # rest) =
     (let availableCredit = getAvailableCreditForBond this w (bondChainId this);
          notEnoughCredit = availableCredit < totalAmount dbTransferRoot;
          (promises, evs) = coarseFilter this w rest
      in if notEnoughCredit
         then (promises, Log LDebug ''not enough credit to bond transferRoot'' # evs)
         else (dbTransferRoot # promises, evs))"

text \<open>
  \<^verbatim>\<open>Promise.all\<close> over the pushed evaluations, in one of its schedules: the one where
  each evaluation runs to its end before the next starts, so that the first rejection
  in time is the first in the list. The source starts all of them and lets their
  effects interleave at every \<^verbatim>\<open>await\<close>; nothing below is stated about a cycle that
  evaluates more than the empty list of roots.
\<close>

fun awaitAll :: "'w watcher \<Rightarrow> TransferRoot list \<Rightarrow> 'w \<Rightarrow> error option \<times> 'w \<times> event list" where
  "awaitAll this [] w = (None, w, [])"
| "awaitAll this (r # rest) w =
     (case checkTransfersCommitted this (transferRootId r) (transferRootHash r) (totalAmount r)
             (destinationChainId r) (committedAt r) (sourceChainId r) (transferIds r) w of
        (res, w1, evs1) \<Rightarrow>
          (case awaitAll this rest w1 of
             (later, w2, evs2) \<Rightarrow>
               ((case res of Inl err \<Rightarrow> Some err | Inr out \<Rightarrow> later), w2, evs1 @ evs2)))"

definition checkTransfersCommittedFromDb :: "'w watcher \<Rightarrow> 'w \<Rightarrow> error option \<times> 'w \<times> event list" where
  "checkTransfersCommittedFromDb this w =
     (let dbTransferRoots = getUnbondedTransferRoots this w in
      if length dbTransferRoots = 0
      then (None, w, [Log LDebug ''no unbonded transfer root db items to check''])
      else
        let (promises, evsF) = coarseFilter this w dbTransferRoots in
        (case awaitAll this promises w of
           (res, w', evsA) \<Rightarrow>
             (res, w', Log LInfo ''checking unbonded transfer roots db items'' # evsF @ evsA)))"

definition pollHandler :: "'w watcher \<Rightarrow> 'w \<Rightarrow> error option \<times> 'w \<times> event list" where
  "pollHandler this w = checkTransfersCommittedFromDb this w"

section \<open>Reading the effects of an evaluation\<close>

fun isBondTx :: "event \<Rightarrow> bool" where
  "isBondTx (BondTransferRoot h d a) = True"
| "isBondTx e = False"

fun isSentBondTxAtWrite :: "event \<Rightarrow> bool" where
  "isSentBondTxAtWrite (DbUpdate rid (SentBondTxAt t)) = True"
| "isSentBondTxAtWrite e = False"

fun isWithdraw :: "event \<Rightarrow> bool" where
  "isWithdraw (WithdrawFromVaultAndStake d a) = True"
| "isWithdraw e = False"

fun isNotifyError :: "event \<Rightarrow> bool" where
  "isNotifyError (NotifyError m) = True"
| "isNotifyError e = False"

fun isNotify :: "event \<Rightarrow> bool" where
  "isNotify (NotifyInfo m) = True"
| "isNotify (NotifyError m) = True"
| "isNotify e = False"

fun isLog :: "event \<Rightarrow> bool" where
  "isLog (Log l m) = True"
| "isLog e = False"

text \<open>
  The logger calls of an evaluation from the remote bond check to the credit check, when
  the hash verification does not fail: the announcement of the root, and the recomputed
  hash when there are transfer identifiers to hash.
\<close>

definition gateLogs :: "string list option \<Rightarrow> event list" where
  "gateLogs ids =
     [Log LInfo ''source transferRootId transferRootHash'',
      Log LDebug ''committedAt:'',
      Log LDebug ''destinationChainId:'',
      Log LDebug ''sourceChainId:'',
      Log LDebug ''transferRootId:'',
      Log LDebug ''transferRootHash:'',
      Log LDebug ''totalAmount:'',
      Log LDebug ''transferRootId:'',
      Log LDebug ''transferRootHash transferIds:''] @
     (if length (case ids of None \<Rightarrow> [] | Some l \<Rightarrow> l) > 0
      then [Log LDebug ''calculated transfer root hash:''] else [])"

text \<open>The guards of \<^verbatim>\<open>checkTransfersCommitted\<close>, as the source computes them.\<close>

definition delta :: "'w watcher \<Rightarrow> int \<Rightarrow> 'w \<Rightarrow> int" where
  "delta this committed w =
     dateNow this w - committed * 1000 - getMinTransferRootBondDelaySeconds this w * 1000"

definition hashMismatch :: "'w watcher \<Rightarrow> string \<Rightarrow> string list option \<Rightarrow> bool" where
  "hashMismatch this rootHash ids =
     (let pendingTransfers = (case ids of None \<Rightarrow> [] | Some l \<Rightarrow> l)
      in length pendingTransfers > 0 \<and> getHexRoot this pendingTransfers \<noteq> rootHash)"

section \<open>The validator's contract in the words of its description\<close>

text \<open>
  The case-normalized transfer identifiers of all records of the window that come from
  the given source chain, flattened.
\<close>

definition flattenedTransferIds :: "int \<Rightarrow> TransferRoot list \<Rightarrow> string list" where
  "flattenedTransferIds cid window =
     concat (map (\<lambda>r. case transferIds r of None \<Rightarrow> [] | Some ids \<Rightarrow> map toLowerCase ids)
                 (filter (\<lambda>r. sourceChainId r = cid) window))"

text \<open>
  A violation: no record under the recomputed id, or one whose id differs; a stored
  destination chain that differs; or an identifier of the target record that does not
  occur exactly once in the flattened identifiers.
\<close>

definition reorgViolation :: "'w watcher \<Rightarrow> 'w \<Rightarrow> string \<Rightarrow> int \<Rightarrow> int \<Rightarrow> bool" where
  "reorgViolation this w rootHash destChainId amount =
     (let rid = getTransferRootId this rootHash amount in
      case getByTransferRootId this w rid of
        None \<Rightarrow> True
      | Some r \<Rightarrow>
          transferRootId r \<noteq> rid \<or> destinationChainId r \<noteq> destChainId \<or>
          list_ex (\<lambda>t. count_list (flattenedTransferIds (chainId this) (getTransferRootsFromTwoWeeks this w)) t \<noteq> 1)
                  (case transferIds r of None \<Rightarrow> [] | Some ids \<Rightarrow> map toLowerCase ids))"

text \<open>Every record of the window that comes from the given chain has its \<^verbatim>\<open>transferIds\<close>.\<close>

definition windowTransferIdsPresent :: "int \<Rightarrow> TransferRoot list \<Rightarrow> bool" where
  "windowTransferIdsPresent cid window =
     list_all (\<lambda>r. sourceChainId r = cid \<longrightarrow> transferIds r \<noteq> None) window"

text \<open>
  The validator finds every \<^verbatim>\<open>transferIds\<close> it dereferences: it returns before the
  uniqueness check, or the target record and the records of the window have the field.
\<close>

definition transferIdsPresent :: "'w watcher \<Rightarrow> 'w \<Rightarrow> string \<Rightarrow> int \<Rightarrow> int \<Rightarrow> bool" where
  "transferIdsPresent this w rootHash destChainId amount =
     (let rid = getTransferRootId this rootHash amount in
      case getByTransferRootId this w rid of
        None \<Rightarrow> True
      | Some r \<Rightarrow>
          transferRootId r \<noteq> rid \<or> destinationChainId r \<noteq> destChainId \<or>
          (transferIds r \<noteq> None \<and>
           windowTransferIdsPresent (chainId this) (getTransferRootsFromTwoWeeks this w)))"

section \<open>A small instance of the collaborators\<close>

text \<open>
  A world the watcher can be run on: a clock, the hub's delay and bonded roots, the
  credit and the vault, and a store. The theorems hold for every watcher; this one
  gives them concrete inputs.
\<close>

record world =
  w_now :: int
  w_minDelay :: int
  w_bonded :: "string list"
  w_credit :: int
  w_vault :: int
  w_roots :: "TransferRoot list"
  w_notFound :: "string list"
  w_sent :: "(string \<times> int) list"
  w_txFails :: bool

text \<open>
  Modelled from the spec: the store, which the watcher imports from
  \<^verbatim>\<open>src/db/TransferRootsDb\<close> and does not define. A record is looked up by its id,
  \<^verbatim>\<open>update\<close> sets the given field of the record with that id, and the unbonded query
  never selects a root marked \<^verbatim>\<open>isNotFound\<close> or one whose \<^verbatim>\<open>sentBondTxAt\<close> is set.
\<close>

definition demoUpdate :: "string \<Rightarrow> patch \<Rightarrow> world \<Rightarrow> world" where
  "demoUpdate rid p w =
     (case p of
        IsNotFound b \<Rightarrow> w\<lparr>w_notFound := (if b then rid # w_notFound w else removeAll rid (w_notFound w))\<rparr>
      | SentBondTxAt t \<Rightarrow> w\<lparr>w_sent := (rid, t) # w_sent w\<rparr>)"

definition demoUnbonded :: "world \<Rightarrow> TransferRoot list" where
  "demoUnbonded w =
     filter (\<lambda>r. transferRootId r \<notin> set (w_notFound w) \<and>
                 transferRootId r \<notin> set (map fst (w_sent w))) (w_roots w)"

definition demoRootId :: "string \<Rightarrow> int \<Rightarrow> string" where
  "demoRootId h a = h @ ''/'' @ replicate (nat a) (CHR ''1'')"

definition demoWatcher :: "world watcher" where
  "demoWatcher =
     \<lparr> chainId = 10,
       tokenSymbol = ''USDC'',
       dryMode = False,
       bondChainId = 1,
       chainIdToSlug = (\<lambda>c. if c = 1 then ''ethereum'' else if c = 10 then ''optimism'' else ''polygon''),
       vaultConfig = [''USDC'' \<mapsto> [''polygon'' \<mapsto> Some True, ''optimism'' \<mapsto> Some False]],
       getTransferRootId = demoRootId,
       getHexRoot = concat,
       dateNow = w_now,
       getMinTransferRootBondDelaySeconds = w_minDelay,
       isTransferRootIdBonded = (\<lambda>w rid. rid \<in> set (w_bonded w)),
       getBondForTransferAmount = (\<lambda>w a. a + a div 10),
       getBaseAvailableCreditIncludingVault = (\<lambda>w c. w_credit w),
       getVaultBalance = (\<lambda>w c. w_vault w),
       getUnbondedTransferRoots = demoUnbonded,
       getByTransferRootId = (\<lambda>w rid. find (\<lambda>r. transferRootId r = rid) (w_roots w)),
       getTransferRootsFromTwoWeeks = w_roots,
       update = demoUpdate,
       withdrawFromVaultAndStake = (\<lambda>c a w. (None, w\<lparr>w_vault := w_vault w - a\<rparr>)),
       bondTransferRoot =
         (\<lambda>h d a w. if w_txFails w then (Inl (Error ''transaction failed''), w)
                    else (Inr ''0xtx'', w\<lparr>w_bonded := demoRootId h a # w_bonded w\<rparr>)) \<rparr>"

text \<open>
  A root of two transfers committed on chain 10 for chain 137 at second 100, and a world
  that holds it, 161 seconds into the clock with a delay of 60 seconds.
\<close>

definition demoRoot :: TransferRoot where
  "demoRoot =
     \<lparr> transferRootId = demoRootId ''0xAb'' 10,
       transferRootHash = ''0xAb'',
       totalAmount = 10,
       destinationChainId = 137,
       committedAt = 100,
       sourceChainId = 10,
       transferIds = Some [''0x'', ''Ab''] \<rparr>"

definition demoWorld :: world where
  "demoWorld =
     \<lparr> w_now = 161000,
       w_minDelay = 60,
       w_bonded = [],
       w_credit = 11,
       w_vault = 4,
       w_roots = [demoRoot],
       w_notFound = [],
       w_sent = [],
       w_txFails = False \<rparr>"

text \<open>
  A second root of the same source chain that repeats the transfer \<^verbatim>\<open>Ab\<close> in capitals,
  and the first root as the store holds it before its transfers are known.
\<close>

definition demoRoot2 :: TransferRoot where
  "demoRoot2 =
     \<lparr> transferRootId = demoRootId ''0xCd'' 7,
       transferRootHash = ''0xCd'',
       totalAmount = 7,
       destinationChainId = 137,
       committedAt = 120,
       sourceChainId = 10,
       transferIds = Some [''AB''] \<rparr>"

definition demoRootUnknown :: TransferRoot where
  "demoRootUnknown = demoRoot\<lparr>transferIds := None\<rparr>"

section \<open>The validator returns or raises\<close>

lemma collectDbTransferIds_eq:
  "collectDbTransferIds cid window acc =
     (if windowTransferIdsPresent cid window then Inr (acc @ flattenedTransferIds cid window)
      else Inl TypeError)"
  by (induction window arbitrary: acc)
     (auto simp: windowTransferIdsPresent_def flattenedTransferIds_def split: option.splits)

lemma occurrences_count_list:
  "length (filter (\<lambda>d. d = t) xs) = count_list xs t"
  by (induction xs) auto

lemma areTransferIdsUnique_iff:
  "areTransferIdsUnique ids db = (\<not> list_ex (\<lambda>t. count_list db t \<noteq> 1) ids)"
  by (induction ids) (auto simp: areTransferIdsUnique_def occurrences_count_list)

lemma isPreTransactionDataValid_result:
  "fst (isPreTransactionDataValid this w rootHash destChainId amount) =
     (if transferIdsPresent this w rootHash destChainId amount
      then Inr (\<not> reorgViolation this w rootHash destChainId amount)
      else Inl TypeError)"
  by (auto simp: isPreTransactionDataValid_def transferIdsPresent_def reorgViolation_def
        collectDbTransferIds_eq areTransferIdsUnique_iff Let_def
        split: option.splits)

text \<open>
  Claim C2, as stated: the validator returns false, without raising, exactly when there is
  a violation, and true otherwise. This fails on a target record whose \<^verbatim>\<open>transferIds\<close>
  is undefined: the record is found under the recomputed id with the right destination
  chain and it has no identifier that could occur zero times or twice, so none of the
  three violations holds, yet \<^verbatim>\<open>transferIds!.map\<close> raises instead of returning true.
\<close>

theorem validator_total_counterexample:
  "fst (isPreTransactionDataValid demoWatcher (demoWorld\<lparr>w_roots := [demoRootUnknown]\<rparr>) ''0xAb'' 137 10) = Inl TypeError \<and>
   \<not> reorgViolation demoWatcher (demoWorld\<lparr>w_roots := [demoRootUnknown]\<rparr>) ''0xAb'' 137 10"
  by code_simp

text \<open>
  Claim C2, amended: when every \<^verbatim>\<open>transferIds\<close> the validator dereferences is present (on
  the target record and on every record of the window from this source chain, whenever
  the first two checks pass), the validator returns without raising, and it returns
  false exactly when a violation holds: no record under the recomputed id or a differing
  stored id, a differing stored destination chain, or a case-normalized identifier of
  the target that does not occur exactly once in the flattened case-normalized
  identifiers of the window's records of this source chain. It returns true otherwise.
\<close>

theorem validator_returns_violation:
  assumes "transferIdsPresent this w rootHash destChainId amount"
  shows "fst (isPreTransactionDataValid this w rootHash destChainId amount) =
           Inr (\<not> reorgViolation this w rootHash destChainId amount)"
  using assms by (simp add: isPreTransactionDataValid_result)

theorem validator_returns_violation_witness:
  "transferIdsPresent demoWatcher demoWorld ''0xAb'' 137 10 \<and>
   fst (isPreTransactionDataValid demoWatcher demoWorld ''0xAb'' 137 10) = Inr True \<and>
   transferIdsPresent demoWatcher (demoWorld\<lparr>w_roots := [demoRoot, demoRoot2]\<rparr>) ''0xAb'' 137 10 \<and>
   fst (isPreTransactionDataValid demoWatcher (demoWorld\<lparr>w_roots := [demoRoot, demoRoot2]\<rparr>) ''0xAb'' 137 10) = Inr False"
proof -
  have p1: "transferIdsPresent demoWatcher demoWorld ''0xAb'' 137 10" by code_simp
  have v1: "\<not> reorgViolation demoWatcher demoWorld ''0xAb'' 137 10" by code_simp
  have p2: "transferIdsPresent demoWatcher (demoWorld\<lparr>w_roots := [demoRoot, demoRoot2]\<rparr>) ''0xAb'' 137 10"
    by code_simp
  have v2: "reorgViolation demoWatcher (demoWorld\<lparr>w_roots := [demoRoot, demoRoot2]\<rparr>) ''0xAb'' 137 10"
    by code_simp
  show ?thesis
    using validator_returns_violation[OF p1] validator_returns_violation[OF p2] p1 p2 v1 v2 by simp
qed

text \<open>
  Claim C10: when the stored record is found under the recomputed id with a matching id
  and a matching destination chain but its \<^verbatim>\<open>transferIds\<close> is undefined, the validator
  raises (a \<^verbatim>\<open>TypeError\<close>) instead of returning false; for such a record it returns a
  boolean only when, and in fact exactly when, \<^verbatim>\<open>transferIds\<close> is present on the target
  record and on every record of the two-week window from this source chain.
\<close>

theorem validator_raises_without_transferIds:
  assumes "getByTransferRootId this w (getTransferRootId this rootHash amount) = Some r"
      and "transferRootId r = getTransferRootId this rootHash amount"
      and "destinationChainId r = destChainId"
  shows "(transferIds r = None \<longrightarrow>
            fst (isPreTransactionDataValid this w rootHash destChainId amount) = Inl TypeError) \<and>
         ((\<exists>b. fst (isPreTransactionDataValid this w rootHash destChainId amount) = Inr b) =
            (transferIds r \<noteq> None \<and>
             windowTransferIdsPresent (chainId this) (getTransferRootsFromTwoWeeks this w)))"
  using assms by (auto simp: isPreTransactionDataValid_result transferIdsPresent_def)

theorem validator_raises_without_transferIds_witness:
  "getByTransferRootId demoWatcher (demoWorld\<lparr>w_roots := [demoRootUnknown]\<rparr>) (getTransferRootId demoWatcher ''0xAb'' 10)
     = Some demoRootUnknown \<and>
   transferRootId demoRootUnknown = getTransferRootId demoWatcher ''0xAb'' 10 \<and>
   destinationChainId demoRootUnknown = 137 \<and>
   transferIds demoRootUnknown = None \<and>
   fst (isPreTransactionDataValid demoWatcher (demoWorld\<lparr>w_roots := [demoRootUnknown]\<rparr>) ''0xAb'' 137 10) = Inl TypeError \<and>
   (\<exists>b. fst (isPreTransactionDataValid demoWatcher demoWorld ''0xAb'' 137 10) = Inr b)"
proof -
  have a1: "getByTransferRootId demoWatcher (demoWorld\<lparr>w_roots := [demoRootUnknown]\<rparr>) (getTransferRootId demoWatcher ''0xAb'' 10)
     = Some demoRootUnknown" by code_simp
  have a2: "transferRootId demoRootUnknown = getTransferRootId demoWatcher ''0xAb'' 10" by code_simp
  have a3: "destinationChainId demoRootUnknown = 137" by code_simp
  have a4: "transferIds demoRootUnknown = None" by code_simp
  have b1: "getByTransferRootId demoWatcher demoWorld (getTransferRootId demoWatcher ''0xAb'' 10) = Some demoRoot"
    by code_simp
  have b2: "transferRootId demoRoot = getTransferRootId demoWatcher ''0xAb'' 10" by code_simp
  have b3: "destinationChainId demoRoot = 137" by code_simp
  have b4: "transferIds demoRoot \<noteq> None \<and>
            windowTransferIdsPresent (chainId demoWatcher) (getTransferRootsFromTwoWeeks demoWatcher demoWorld)"
    by code_simp
  show ?thesis
    using validator_raises_without_transferIds[OF a1 a2 a3] validator_raises_without_transferIds[OF b1 b2 b3]
      a1 a2 a3 a4 b4 by simp
qed

section \<open>The paths of an evaluation\<close>

lemma gateLogs_log: "list_all isLog (gateLogs ids)"
  by (simp add: gateLogs_def)

lemma log_filters:
  assumes "list_all isLog xs"
  shows "filter isBondTx xs = []" and "filter isSentBondTxAtWrite xs = []"
    and "filter isNotifyError xs = []" and "filter isWithdraw xs = []"
  using assms by (induction xs) (auto elim: isLog.elims)

lemma list_ex_filter: "list_ex P xs = (filter P xs \<noteq> [])"
  by (induction xs) auto

lemma takeWhile_skip:
  "filter P xs = [] \<Longrightarrow> takeWhile (\<lambda>e. \<not> P e) (xs @ ys) = xs @ takeWhile (\<lambda>e. \<not> P e) ys"
  by (induction xs) (auto split: if_splits)

lemma withdraw_filters:
  assumes "withdrawFromVaultIfNeeded this d b w = (res, w', evs)"
  shows "filter isBondTx evs = []" and "filter isSentBondTxAtWrite evs = []"
    and "res = Inr () \<Longrightarrow> filter isNotifyError evs = []"
  using assms
  by (auto simp: withdrawFromVaultIfNeeded_def Let_def split: prod.splits option.splits if_splits)

lemma send_cases:
  "sendBondTransferRoot this h d a w = (res, w', evs) \<Longrightarrow>
     (fst (isPreTransactionDataValid this w h d a) = Inr True \<and>
        res = fst (bondTransferRoot this h d a w) \<and> w' = snd (bondTransferRoot this h d a w) \<and>
        evs = snd (isPreTransactionDataValid this w h d a) @ [BondTransferRoot h d a]) \<or>
     (fst (isPreTransactionDataValid this w h d a) = Inr False \<and>
        res = Inl (Error ''Possible reorg detected. bondTransferRoot tx not sent'') \<and> w' = w \<and>
        evs = snd (isPreTransactionDataValid this w h d a)) \<or>
     ((\<exists>e. fst (isPreTransactionDataValid this w h d a) = Inl e \<and> res = Inl e) \<and> w' = w \<and>
        evs = snd (isPreTransactionDataValid this w h d a))"
  by (auto simp: sendBondTransferRoot_def split: prod.splits sum.splits if_splits)

lemma ctc_early:
  "\<not> delta this c w > 0 \<Longrightarrow>
     checkTransfersCommitted this rid h a d c s ids w = (Inr TooEarly, w, [Log LDebug ''too early to bond''])"
  by (simp add: checkTransfersCommitted_def delta_def Let_def)

lemma ctc_bonded:
  "delta this c w > 0 \<Longrightarrow> isTransferRootIdBonded this w rid \<Longrightarrow>
     checkTransfersCommitted this rid h a d c s ids w =
       (Inr AlreadyBonded, update this rid (IsNotFound True) w,
        [Log LWarn ''checkTransfersCommitted already bonded. marking item not found.'',
         DbUpdate rid (IsNotFound True)])"
  by (simp add: checkTransfersCommitted_def delta_def Let_def)

lemma ctc_mismatch:
  "delta this c w > 0 \<Longrightarrow> \<not> isTransferRootIdBonded this w rid \<Longrightarrow> hashMismatch this h ids \<Longrightarrow>
     checkTransfersCommitted this rid h a d c s ids w =
       (Inr HashMismatch, w, gateLogs ids @ [Log LError ''calculated transfer root hash does not match''])"
  by (auto simp: checkTransfersCommitted_def delta_def hashMismatch_def gateLogs_def Let_def)

lemma ctc_credit:
  "delta this c w > 0 \<Longrightarrow> \<not> isTransferRootIdBonded this w rid \<Longrightarrow> \<not> hashMismatch this h ids \<Longrightarrow>
   getAvailableCreditForBond this w (bondChainId this) < getBondForTransferAmount this w a \<Longrightarrow>
     checkTransfersCommitted this rid h a d c s ids w =
       (Inr NotEnoughCredit, w,
        gateLogs ids @ [Log LError ''not enough credit to bond transferRoot'',
                        NotifyError ''not enough credit to bond transferRoot''])"
  by (auto simp: checkTransfersCommitted_def delta_def hashMismatch_def gateLogs_def Let_def)

lemma ctc_dry:
  "delta this c w > 0 \<Longrightarrow> \<not> isTransferRootIdBonded this w rid \<Longrightarrow> \<not> hashMismatch this h ids \<Longrightarrow>
   \<not> getAvailableCreditForBond this w (bondChainId this) < getBondForTransferAmount this w a \<Longrightarrow>
   dryMode this \<Longrightarrow>
     checkTransfersCommitted this rid h a d c s ids w =
       (Inr DrySkip, w, gateLogs ids @ [Log LWarn ''dry: skipping bondTransferRoot''])"
  by (auto simp: checkTransfersCommitted_def delta_def hashMismatch_def gateLogs_def Let_def)

lemma ctc_vault_error:
  "delta this c w > 0 \<Longrightarrow> \<not> isTransferRootIdBonded this w rid \<Longrightarrow> \<not> hashMismatch this h ids \<Longrightarrow>
   \<not> getAvailableCreditForBond this w (bondChainId this) < getBondForTransferAmount this w a \<Longrightarrow>
   \<not> dryMode this \<Longrightarrow>
   withdrawFromVaultIfNeeded this d (getBondForTransferAmount this w a) w = (Inl e, w1, evsV) \<Longrightarrow>
     checkTransfersCommitted this rid h a d c s ids w = (Inl e, w1, gateLogs ids @ evsV)"
  by (auto simp: checkTransfersCommitted_def delta_def hashMismatch_def gateLogs_def Let_def)

lemma ctc_send:
  "delta this c w > 0 \<Longrightarrow> \<not> isTransferRootIdBonded this w rid \<Longrightarrow> \<not> hashMismatch this h ids \<Longrightarrow>
   \<not> getAvailableCreditForBond this w (bondChainId this) < getBondForTransferAmount this w a \<Longrightarrow>
   \<not> dryMode this \<Longrightarrow>
   withdrawFromVaultIfNeeded this d (getBondForTransferAmount this w a) w = (Inr u, w1, evsV) \<Longrightarrow>
   sendBondTransferRoot this h d a (update this rid (SentBondTxAt (dateNow this w1)) w1) = (resS, w3, evsS) \<Longrightarrow>
     checkTransfersCommitted this rid h a d c s ids w =
       ((case resS of Inr tx \<Rightarrow> Inr (Sent tx) | Inl err \<Rightarrow> Inl err), w3,
        gateLogs ids @ evsV @
        [Log LDebug ''attempting to bond transfer root id'', DbUpdate rid (SentBondTxAt (dateNow this w1))] @
        evsS @
        (case resS of
           Inr tx \<Rightarrow> [Log LInfo ''L1 bondTransferRoot'', NotifyInfo ''L1 bondTransferRoot'']
         | Inl err \<Rightarrow> [Log LError ''sendBondTransferRoot error:'']))"
  by (cases resS) (auto simp: checkTransfersCommitted_def delta_def hashMismatch_def gateLogs_def Let_def)

lemma checkTransfersCommitted_cases:
  fixes this :: "'w watcher"
  obtains (early) "\<not> delta this c w > 0"
      "checkTransfersCommitted this rid h a d c s ids w = (Inr TooEarly, w, [Log LDebug ''too early to bond''])"
  | (bonded) "delta this c w > 0" "isTransferRootIdBonded this w rid"
      "checkTransfersCommitted this rid h a d c s ids w =
         (Inr AlreadyBonded, update this rid (IsNotFound True) w,
          [Log LWarn ''checkTransfersCommitted already bonded. marking item not found.'',
           DbUpdate rid (IsNotFound True)])"
  | (mismatch) "delta this c w > 0" "\<not> isTransferRootIdBonded this w rid" "hashMismatch this h ids"
      "checkTransfersCommitted this rid h a d c s ids w =
         (Inr HashMismatch, w, gateLogs ids @ [Log LError ''calculated transfer root hash does not match''])"
  | (credit) "delta this c w > 0" "\<not> isTransferRootIdBonded this w rid" "\<not> hashMismatch this h ids"
      "getAvailableCreditForBond this w (bondChainId this) < getBondForTransferAmount this w a"
      "checkTransfersCommitted this rid h a d c s ids w =
         (Inr NotEnoughCredit, w,
          gateLogs ids @ [Log LError ''not enough credit to bond transferRoot'',
                          NotifyError ''not enough credit to bond transferRoot''])"
  | (dry) "delta this c w > 0" "\<not> isTransferRootIdBonded this w rid" "\<not> hashMismatch this h ids"
      "\<not> getAvailableCreditForBond this w (bondChainId this) < getBondForTransferAmount this w a"
      "dryMode this"
      "checkTransfersCommitted this rid h a d c s ids w =
         (Inr DrySkip, w, gateLogs ids @ [Log LWarn ''dry: skipping bondTransferRoot''])"
  | (vault_error) e w1 evsV where
      "delta this c w > 0" "\<not> isTransferRootIdBonded this w rid" "\<not> hashMismatch this h ids"
      "\<not> getAvailableCreditForBond this w (bondChainId this) < getBondForTransferAmount this w a"
      "\<not> dryMode this"
      "withdrawFromVaultIfNeeded this d (getBondForTransferAmount this w a) w = (Inl e, w1, evsV)"
      "checkTransfersCommitted this rid h a d c s ids w = (Inl e, w1, gateLogs ids @ evsV)"
  | (send) w1 evsV resS w3 evsS where
      "delta this c w > 0" "\<not> isTransferRootIdBonded this w rid" "\<not> hashMismatch this h ids"
      "\<not> getAvailableCreditForBond this w (bondChainId this) < getBondForTransferAmount this w a"
      "\<not> dryMode this"
      "withdrawFromVaultIfNeeded this d (getBondForTransferAmount this w a) w = (Inr (), w1, evsV)"
      "sendBondTransferRoot this h d a (update this rid (SentBondTxAt (dateNow this w1)) w1) = (resS, w3, evsS)"
      "checkTransfersCommitted this rid h a d c s ids w =
         ((case resS of Inr tx \<Rightarrow> Inr (Sent tx) | Inl err \<Rightarrow> Inl err), w3,
          gateLogs ids @ evsV @
          [Log LDebug ''attempting to bond transfer root id'', DbUpdate rid (SentBondTxAt (dateNow this w1))] @
          evsS @
          (case resS of
             Inr tx \<Rightarrow> [Log LInfo ''L1 bondTransferRoot'', NotifyInfo ''L1 bondTransferRoot'']
           | Inl err \<Rightarrow> [Log LError ''sendBondTransferRoot error:'']))"
proof -
  obtain resV w1 evsV where V:
    "withdrawFromVaultIfNeeded this d (getBondForTransferAmount this w a) w = (resV, w1, evsV)"
    using prod_cases3 by blast
  obtain resS w3 evsS where S:
    "sendBondTransferRoot this h d a (update this rid (SentBondTxAt (dateNow this w1)) w1) = (resS, w3, evsS)"
    using prod_cases3 by blast
  show thesis
  proof (cases resV)
    case (Inl e)
    with V show thesis
      using early[OF _ ctc_early] bonded[OF _ _ ctc_bonded] mismatch[OF _ _ _ ctc_mismatch]
        credit[OF _ _ _ _ ctc_credit] dry[OF _ _ _ _ _ ctc_dry]
        vault_error[OF _ _ _ _ _ _ ctc_vault_error]
      by blast
  next
    case (Inr u)
    with V S show thesis
      using early[OF _ ctc_early] bonded[OF _ _ ctc_bonded] mismatch[OF _ _ _ ctc_mismatch]
        credit[OF _ _ _ _ ctc_credit] dry[OF _ _ _ _ _ ctc_dry]
        send[OF _ _ _ _ _ _ _ ctc_send]
      by (cases u) blast
  qed
qed

section \<open>The timing gate\<close>

text \<open>
  Claim C1, as stated: evaluating at exactly \<open>T + D\<close> proceeds past the timing gate. The
  source bonds when \<^verbatim>\<open>delta > 0\<close>, and at \<open>T + D\<close> the difference is zero: with
  \<open>T = 100\<close> and \<open>D = 60\<close> seconds, the evaluation at millisecond \<open>160000\<close> aborts as too
  early.
\<close>

theorem timing_gate_at_release_counterexample:
  "dateNow demoWatcher (demoWorld\<lparr>w_now := 160000\<rparr>) =
     (100 + getMinTransferRootBondDelaySeconds demoWatcher (demoWorld\<lparr>w_now := 160000\<rparr>)) * 1000 \<and>
   fst (checkTransfersCommitted demoWatcher ''r'' ''0xAb'' 10 137 100 10 (Some [''0x'', ''Ab''])
          (demoWorld\<lparr>w_now := 160000\<rparr>)) = Inr TooEarly"
  by code_simp

text \<open>
  Claim C1, amended: with \<^verbatim>\<open>committedAt = T\<close> and a hub delay of \<open>D\<close> seconds, an
  evaluation at any time up to and including \<open>T + D\<close> (a clock of at most
  \<open>(T + D) * 1000\<close> milliseconds) aborts as too early, with no effect but the debug log;
  an evaluation at any later time does not abort as too early.
\<close>

theorem timing_gate_boundary:
  "(dateNow this w \<le> (c + getMinTransferRootBondDelaySeconds this w) * 1000 \<longrightarrow>
      checkTransfersCommitted this rid h a d c s ids w = (Inr TooEarly, w, [Log LDebug ''too early to bond''])) \<and>
   ((c + getMinTransferRootBondDelaySeconds this w) * 1000 < dateNow this w \<longrightarrow>
      fst (checkTransfersCommitted this rid h a d c s ids w) \<noteq> Inr TooEarly)"
proof -
  have d: "(delta this c w > 0) = ((c + getMinTransferRootBondDelaySeconds this w) * 1000 < dateNow this w)"
    by (simp add: delta_def algebra_simps)
  show ?thesis
    by (cases rule: checkTransfersCommitted_cases[where this=this and c=c and w=w and rid=rid and h=h and ids=ids and a=a and d=d and s=s])
       (use d in \<open>auto split: sum.splits\<close>)
qed

theorem timing_gate_boundary_witness:
  "fst (checkTransfersCommitted demoWatcher ''r'' ''0xAb'' 10 137 100 10 (Some [''0x'', ''Ab''])
          (demoWorld\<lparr>w_now := 159999\<rparr>)) = Inr TooEarly \<and>
   fst (checkTransfersCommitted demoWatcher ''r'' ''0xAb'' 10 137 100 10 (Some [''0x'', ''Ab''])
          (demoWorld\<lparr>w_now := 160001\<rparr>)) \<noteq> Inr TooEarly"
proof -
  have e: "dateNow demoWatcher (demoWorld\<lparr>w_now := 159999\<rparr>)
             \<le> (100 + getMinTransferRootBondDelaySeconds demoWatcher (demoWorld\<lparr>w_now := 159999\<rparr>)) * 1000"
    by code_simp
  have l: "(100 + getMinTransferRootBondDelaySeconds demoWatcher (demoWorld\<lparr>w_now := 160001\<rparr>)) * 1000
             < dateNow demoWatcher (demoWorld\<lparr>w_now := 160001\<rparr>)"
    by code_simp
  show ?thesis
    using timing_gate_boundary[of demoWatcher "demoWorld\<lparr>w_now := 159999\<rparr>" 100 "''r''" "''0xAb''" 10 137 10 "Some [''0x'', ''Ab'']"]
      timing_gate_boundary[of demoWatcher "demoWorld\<lparr>w_now := 160001\<rparr>" 100 "''r''" "''0xAb''" 10 137 10 "Some [''0x'', ''Ab'']"]
      e l by simp
qed

section \<open>The remote bond check\<close>

text \<open>
  Claim C6: when the hub chain reports the root as already bonded (the remote bond check
  is the step after the timing gate, so the evaluation has passed that gate), the
  evaluation writes \<^verbatim>\<open>isNotFound = true\<close> for the root to the store and returns: its only
  effects are the warning and that write, so there is no hash verification, credit
  check, vault operation, intent write or transaction. The evaluation ends without an
  error. Whether a later cycle selects the root again is decided by the store's unbonded
  query, a collaborator: if that query leaves out a root just marked \<^verbatim>\<open>isNotFound\<close>, the
  root is not among the unbonded roots of the world the evaluation leaves.
\<close>

theorem already_bonded_is_terminal:
  assumes "fst (checkTransfersCommitted this rid h a d c s ids w) \<noteq> Inr TooEarly"
      and "isTransferRootIdBonded this w rid"
  shows "checkTransfersCommitted this rid h a d c s ids w =
           (Inr AlreadyBonded, update this rid (IsNotFound True) w,
            [Log LWarn ''checkTransfersCommitted already bonded. marking item not found.'',
             DbUpdate rid (IsNotFound True)]) \<and>
         ((\<forall>w0. rid \<notin> set (map transferRootId (getUnbondedTransferRoots this (update this rid (IsNotFound True) w0)))) \<longrightarrow>
            rid \<notin> set (map transferRootId
                 (getUnbondedTransferRoots this (fst (snd (checkTransfersCommitted this rid h a d c s ids w))))))"
  by (cases rule: checkTransfersCommitted_cases[where this=this and c=c and w=w and rid=rid and h=h and ids=ids and a=a and d=d and s=s])
     (use assms in \<open>auto split: sum.splits\<close>)

theorem already_bonded_is_terminal_witness:
  "fst (checkTransfersCommitted demoWatcher (demoRootId ''0xAb'' 10) ''0xAb'' 10 137 100 10 (Some [''0x'', ''Ab''])
          (demoWorld\<lparr>w_bonded := [demoRootId ''0xAb'' 10]\<rparr>)) = Inr AlreadyBonded \<and>
   w_notFound (fst (snd (checkTransfersCommitted demoWatcher (demoRootId ''0xAb'' 10) ''0xAb'' 10 137 100 10 (Some [''0x'', ''Ab''])
          (demoWorld\<lparr>w_bonded := [demoRootId ''0xAb'' 10]\<rparr>)))) = [demoRootId ''0xAb'' 10] \<and>
   getUnbondedTransferRoots demoWatcher
     (fst (snd (checkTransfersCommitted demoWatcher (demoRootId ''0xAb'' 10) ''0xAb'' 10 137 100 10 (Some [''0x'', ''Ab''])
          (demoWorld\<lparr>w_bonded := [demoRootId ''0xAb'' 10]\<rparr>)))) = []"
proof -
  let ?W = "demoWorld\<lparr>w_bonded := [demoRootId ''0xAb'' 10]\<rparr>"
  let ?E = "checkTransfersCommitted demoWatcher (demoRootId ''0xAb'' 10) ''0xAb'' 10 137 100 10 (Some [''0x'', ''Ab'']) ?W"
  have a1: "fst ?E \<noteq> Inr TooEarly" by code_simp
  have a2: "isTransferRootIdBonded demoWatcher ?W (demoRootId ''0xAb'' 10)" by code_simp
  have st: "\<forall>w0. demoRootId ''0xAb'' 10 \<notin> set (map transferRootId
               (getUnbondedTransferRoots demoWatcher (update demoWatcher (demoRootId ''0xAb'' 10) (IsNotFound True) w0)))"
    by (auto simp: demoWatcher_def demoUnbonded_def demoUpdate_def)
  have u: "getUnbondedTransferRoots demoWatcher (update demoWatcher (demoRootId ''0xAb'' 10) (IsNotFound True) ?W) = []"
    by code_simp
  have n: "w_notFound (update demoWatcher (demoRootId ''0xAb'' 10) (IsNotFound True) ?W) = [demoRootId ''0xAb'' 10]"
    by code_simp
  show ?thesis
    using already_bonded_is_terminal[OF a1 a2] st u n by simp
qed

section \<open>The credit checks\<close>

text \<open>
  Claim C4: an evaluation that reaches the precise credit check (it did not abort as too
  early, already bonded or on a hash mismatch) aborts as insufficient exactly when the
  available credit is strictly less than the required bond amount. Credit equal to the
  required amount passes; credit one unit below it aborts, leaving the world as it was.
\<close>

theorem precise_credit_gate:
  assumes "fst (checkTransfersCommitted this rid h a d c s ids w) \<noteq> Inr TooEarly"
      and "fst (checkTransfersCommitted this rid h a d c s ids w) \<noteq> Inr AlreadyBonded"
      and "fst (checkTransfersCommitted this rid h a d c s ids w) \<noteq> Inr HashMismatch"
  shows "(fst (checkTransfersCommitted this rid h a d c s ids w) = Inr NotEnoughCredit) =
           (getAvailableCreditForBond this w (bondChainId this) < getBondForTransferAmount this w a) \<and>
         (getAvailableCreditForBond this w (bondChainId this) = getBondForTransferAmount this w a \<longrightarrow>
            fst (checkTransfersCommitted this rid h a d c s ids w) \<noteq> Inr NotEnoughCredit) \<and>
         (getAvailableCreditForBond this w (bondChainId this) = getBondForTransferAmount this w a - 1 \<longrightarrow>
            fst (checkTransfersCommitted this rid h a d c s ids w) = Inr NotEnoughCredit) \<and>
         (getAvailableCreditForBond this w (bondChainId this) < getBondForTransferAmount this w a \<longrightarrow>
            checkTransfersCommitted this rid h a d c s ids w =
              (Inr NotEnoughCredit, w,
               gateLogs ids @ [Log LError ''not enough credit to bond transferRoot'',
                               NotifyError ''not enough credit to bond transferRoot'']))"
  by (cases rule: checkTransfersCommitted_cases[where this=this and c=c and w=w and rid=rid and h=h and ids=ids and a=a and d=d and s=s])
     (use assms in \<open>auto split: sum.splits\<close>)

theorem precise_credit_gate_witness:
  "getAvailableCreditForBond demoWatcher demoWorld (bondChainId demoWatcher) = getBondForTransferAmount demoWatcher demoWorld 10 \<and>
   fst (checkTransfersCommitted demoWatcher ''r'' ''0xAb'' 10 137 100 10 (Some [''0x'', ''Ab'']) demoWorld) \<noteq> Inr NotEnoughCredit \<and>
   getAvailableCreditForBond demoWatcher (demoWorld\<lparr>w_credit := 10\<rparr>) (bondChainId demoWatcher)
     = getBondForTransferAmount demoWatcher (demoWorld\<lparr>w_credit := 10\<rparr>) 10 - 1 \<and>
   fst (checkTransfersCommitted demoWatcher ''r'' ''0xAb'' 10 137 100 10 (Some [''0x'', ''Ab'']) (demoWorld\<lparr>w_credit := 10\<rparr>))
     = Inr NotEnoughCredit"
proof -
  let ?E1 = "checkTransfersCommitted demoWatcher ''r'' ''0xAb'' 10 137 100 10 (Some [''0x'', ''Ab'']) demoWorld"
  let ?E2 = "checkTransfersCommitted demoWatcher ''r'' ''0xAb'' 10 137 100 10 (Some [''0x'', ''Ab'']) (demoWorld\<lparr>w_credit := 10\<rparr>)"
  have a1: "fst ?E1 \<noteq> Inr TooEarly" and a2: "fst ?E1 \<noteq> Inr AlreadyBonded" and a3: "fst ?E1 \<noteq> Inr HashMismatch"
    by code_simp+
  have b1: "fst ?E2 \<noteq> Inr TooEarly" and b2: "fst ?E2 \<noteq> Inr AlreadyBonded" and b3: "fst ?E2 \<noteq> Inr HashMismatch"
    by code_simp+
  have e1: "getAvailableCreditForBond demoWatcher demoWorld (bondChainId demoWatcher) = getBondForTransferAmount demoWatcher demoWorld 10"
    by code_simp
  have e2: "getAvailableCreditForBond demoWatcher (demoWorld\<lparr>w_credit := 10\<rparr>) (bondChainId demoWatcher)
     = getBondForTransferAmount demoWatcher (demoWorld\<lparr>w_credit := 10\<rparr>) 10 - 1"
    by code_simp
  show ?thesis
    using precise_credit_gate[OF a1 a2 a3] precise_credit_gate[OF b1 b2 b3] e1 e2 by simp
qed

lemma coarseFilter_eq:
  "coarseFilter this w roots =
     (filter (\<lambda>r. \<not> getAvailableCreditForBond this w (bondChainId this) < totalAmount r) roots,
      replicate (length (filter (\<lambda>r. getAvailableCreditForBond this w (bondChainId this) < totalAmount r) roots))
        (Log LDebug ''not enough credit to bond transferRoot''))"
  by (induction roots) (simp_all add: Let_def)

text \<open>
  Claim C7, as stated: an abort for insufficient credit at the coarse pre-filter is logged
  and surfaced through \<^verbatim>\<open>notifier.error\<close>. The loop of \<^verbatim>\<open>checkTransfersCommittedFromDb\<close>
  only writes a debug log and continues: with a credit of 5 and a root of total amount
  10, the cycle makes two logger calls and no notifier call.
\<close>

theorem coarse_filter_counterexample:
  "getUnbondedTransferRoots demoWatcher (demoWorld\<lparr>w_credit := 5\<rparr>) = [demoRoot] \<and>
   getAvailableCreditForBond demoWatcher (demoWorld\<lparr>w_credit := 5\<rparr>) (bondChainId demoWatcher) < totalAmount demoRoot \<and>
   checkTransfersCommittedFromDb demoWatcher (demoWorld\<lparr>w_credit := 5\<rparr>) =
     (None, demoWorld\<lparr>w_credit := 5\<rparr>,
      [Log LInfo ''checking unbonded transfer roots db items'',
       Log LDebug ''not enough credit to bond transferRoot'']) \<and>
   \<not> list_ex isNotifyError (snd (snd (checkTransfersCommittedFromDb demoWatcher (demoWorld\<lparr>w_credit := 5\<rparr>))))"
  by code_simp

text \<open>
  Claim C7, amended: an evaluation that aborts for insufficient credit at the precise
  per-root check logs the condition as an error and surfaces the same message through
  \<^verbatim>\<open>notifier.error\<close>. At the coarse per-cycle pre-filter a root whose total amount
  exceeds the available credit is skipped with one debug log and no notifier call: the
  filter keeps the other roots and its effects are one debug log per skipped root, and a
  cycle in which every root is skipped has no other effect than its logs.
\<close>

theorem insufficient_credit_reporting:
  "(fst (checkTransfersCommitted this rid h a d c s ids w) = Inr NotEnoughCredit \<longrightarrow>
      snd (snd (checkTransfersCommitted this rid h a d c s ids w)) =
        gateLogs ids @ [Log LError ''not enough credit to bond transferRoot'',
                        NotifyError ''not enough credit to bond transferRoot'']) \<and>
   coarseFilter this w roots =
     (filter (\<lambda>r. \<not> getAvailableCreditForBond this w (bondChainId this) < totalAmount r) roots,
      replicate (length (filter (\<lambda>r. getAvailableCreditForBond this w (bondChainId this) < totalAmount r) roots))
        (Log LDebug ''not enough credit to bond transferRoot'')) \<and>
   (getUnbondedTransferRoots this w \<noteq> [] \<and>
    list_all (\<lambda>r. getAvailableCreditForBond this w (bondChainId this) < totalAmount r) (getUnbondedTransferRoots this w) \<longrightarrow>
      checkTransfersCommittedFromDb this w =
        (None, w,
         Log LInfo ''checking unbonded transfer roots db items'' #
         replicate (length (getUnbondedTransferRoots this w)) (Log LDebug ''not enough credit to bond transferRoot'')))"
proof -
  have precise: "fst (checkTransfersCommitted this rid h a d c s ids w) = Inr NotEnoughCredit \<longrightarrow>
      snd (snd (checkTransfersCommitted this rid h a d c s ids w)) =
        gateLogs ids @ [Log LError ''not enough credit to bond transferRoot'',
                        NotifyError ''not enough credit to bond transferRoot'']"
    by (cases rule: checkTransfersCommitted_cases[where this=this and c=c and w=w and rid=rid and h=h and ids=ids and a=a and d=d and s=s])
       (auto split: sum.splits)
  have all: "list_all P xs \<Longrightarrow> filter (\<lambda>r. \<not> P r) xs = [] \<and> filter P xs = xs" for P and xs :: "TransferRoot list"
    by (induction xs) auto
  have cycle: "getUnbondedTransferRoots this w \<noteq> [] \<and>
    list_all (\<lambda>r. getAvailableCreditForBond this w (bondChainId this) < totalAmount r) (getUnbondedTransferRoots this w) \<longrightarrow>
      checkTransfersCommittedFromDb this w =
        (None, w,
         Log LInfo ''checking unbonded transfer roots db items'' #
         replicate (length (getUnbondedTransferRoots this w)) (Log LDebug ''not enough credit to bond transferRoot''))"
    by (auto simp: checkTransfersCommittedFromDb_def Let_def coarseFilter_eq dest!: all)
  show ?thesis
    using precise cycle coarseFilter_eq[of this w roots] by blast
qed

theorem insufficient_credit_reporting_witness:
  "fst (checkTransfersCommitted demoWatcher ''r'' ''0xAb'' 10 137 100 10 (Some [''0x'', ''Ab'']) (demoWorld\<lparr>w_credit := 10\<rparr>))
     = Inr NotEnoughCredit \<and>
   snd (snd (checkTransfersCommitted demoWatcher ''r'' ''0xAb'' 10 137 100 10 (Some [''0x'', ''Ab'']) (demoWorld\<lparr>w_credit := 10\<rparr>)))
     = gateLogs (Some [''0x'', ''Ab'']) @ [Log LError ''not enough credit to bond transferRoot'',
                        NotifyError ''not enough credit to bond transferRoot''] \<and>
   checkTransfersCommittedFromDb demoWatcher (demoWorld\<lparr>w_credit := 5\<rparr>) =
     (None, demoWorld\<lparr>w_credit := 5\<rparr>,
      [Log LInfo ''checking unbonded transfer roots db items'',
       Log LDebug ''not enough credit to bond transferRoot''])"
proof -
  have p: "fst (checkTransfersCommitted demoWatcher ''r'' ''0xAb'' 10 137 100 10 (Some [''0x'', ''Ab'']) (demoWorld\<lparr>w_credit := 10\<rparr>))
     = Inr NotEnoughCredit" by code_simp
  have u: "getUnbondedTransferRoots demoWatcher (demoWorld\<lparr>w_credit := 5\<rparr>) = [demoRoot]" by code_simp
  have l: "list_all (\<lambda>r. getAvailableCreditForBond demoWatcher (demoWorld\<lparr>w_credit := 5\<rparr>) (bondChainId demoWatcher) < totalAmount r)
             [demoRoot]" by code_simp
  show ?thesis
    using insufficient_credit_reporting[of demoWatcher "''r''" "''0xAb''" 10 137 100 10 "Some [''0x'', ''Ab'']" "demoWorld\<lparr>w_credit := 10\<rparr>" "[]"]
      insufficient_credit_reporting[of demoWatcher "''r''" "''0xAb''" 10 137 100 10 "Some [''0x'', ''Ab'']" "demoWorld\<lparr>w_credit := 5\<rparr>" "[]"]
      p u l by simp
qed

section \<open>Dry mode\<close>

text \<open>
  Claim C9: in dry mode an evaluation that passes the precise credit check (it did not
  abort at the timing gate, the remote bond check, the hash verification or the credit
  check) stops before the vault step. The world is unchanged and the only effects are
  logger calls: no vault withdrawal, no \<^verbatim>\<open>sentBondTxAt\<close> write, no bonding transaction.
\<close>

theorem dry_mode_no_side_effects:
  assumes "dryMode this"
      and "fst (checkTransfersCommitted this rid h a d c s ids w) \<noteq> Inr TooEarly"
      and "fst (checkTransfersCommitted this rid h a d c s ids w) \<noteq> Inr AlreadyBonded"
      and "fst (checkTransfersCommitted this rid h a d c s ids w) \<noteq> Inr HashMismatch"
      and "fst (checkTransfersCommitted this rid h a d c s ids w) \<noteq> Inr NotEnoughCredit"
  shows "checkTransfersCommitted this rid h a d c s ids w =
           (Inr DrySkip, w, gateLogs ids @ [Log LWarn ''dry: skipping bondTransferRoot'']) \<and>
         list_all isLog (snd (snd (checkTransfersCommitted this rid h a d c s ids w))) \<and>
         \<not> list_ex isWithdraw (snd (snd (checkTransfersCommitted this rid h a d c s ids w))) \<and>
         \<not> list_ex isSentBondTxAtWrite (snd (snd (checkTransfersCommitted this rid h a d c s ids w))) \<and>
         \<not> list_ex isBondTx (snd (snd (checkTransfersCommitted this rid h a d c s ids w)))"
  by (cases rule: checkTransfersCommitted_cases[where this=this and c=c and w=w and rid=rid and h=h and ids=ids and a=a and d=d and s=s])
     (use assms gateLogs_log[of ids] log_filters[OF gateLogs_log[of ids]] in \<open>auto simp: list_ex_filter\<close>)

theorem dry_mode_no_side_effects_witness:
  "dryMode (demoWatcher\<lparr>dryMode := True\<rparr>) \<and>
   fst (checkTransfersCommitted (demoWatcher\<lparr>dryMode := True\<rparr>) ''r'' ''0xAb'' 10 137 100 10 (Some [''0x'', ''Ab'']) demoWorld)
     = Inr DrySkip \<and>
   fst (snd (checkTransfersCommitted (demoWatcher\<lparr>dryMode := True\<rparr>) ''r'' ''0xAb'' 10 137 100 10 (Some [''0x'', ''Ab'']) demoWorld))
     = demoWorld"
proof -
  let ?E = "checkTransfersCommitted (demoWatcher\<lparr>dryMode := True\<rparr>) ''r'' ''0xAb'' 10 137 100 10 (Some [''0x'', ''Ab'']) demoWorld"
  have a0: "dryMode (demoWatcher\<lparr>dryMode := True\<rparr>)" by simp
  have a1: "fst ?E \<noteq> Inr TooEarly" and a2: "fst ?E \<noteq> Inr AlreadyBonded"
    and a3: "fst ?E \<noteq> Inr HashMismatch" and a4: "fst ?E \<noteq> Inr NotEnoughCredit"
    by code_simp+
  show ?thesis
    using dry_mode_no_side_effects[OF a0 a1 a2 a3 a4] a0 by simp
qed

section \<open>The vault\<close>

text \<open>
  Claim C5: when the \<^verbatim>\<open>autoWithdraw\<close> flag of the token and destination chain is absent
  or false, \<^verbatim>\<open>withdrawFromVaultIfNeeded\<close> does nothing. When it is true, the
  withdraw-and-restake operation of the destination watcher is invoked, once and with
  the full vault balance, exactly when the available credit minus the vault balance is
  strictly less than the bond amount: then the world the function leaves is the one the
  operation leaves and its result is the operation's (its error is notified, logged and
  rethrown). At equality, and above, the operation is not invoked: the world is
  unchanged and the only effect is the debug log.
\<close>

theorem vault_withdrawal_decision:
  "(\<not> (\<exists>m. vaultConfig this (tokenSymbol this) = Some m \<and> m (chainIdToSlug this d) = Some (Some True)) \<longrightarrow>
      withdrawFromVaultIfNeeded this d b w = (Inr (), w, [])) \<and>
   ((\<exists>m. vaultConfig this (tokenSymbol this) = Some m \<and> m (chainIdToSlug this d) = Some (Some True)) \<longrightarrow>
      filter isWithdraw (snd (snd (withdrawFromVaultIfNeeded this d b w))) =
        (if getAvailableCreditForBond this w d - getVaultBalance this w d < b
         then [WithdrawFromVaultAndStake d (getVaultBalance this w d)] else []) \<and>
      (\<not> getAvailableCreditForBond this w d - getVaultBalance this w d < b \<longrightarrow>
         fst (withdrawFromVaultIfNeeded this d b w) = Inr () \<and>
         fst (snd (withdrawFromVaultIfNeeded this d b w)) = w) \<and>
      (\<not> getAvailableCreditForBond this w d - getVaultBalance this w d < b \<longrightarrow>
         withdrawFromVaultIfNeeded this d b w =
           (Inr (), w, [Log LDebug ''availableCredit, vaultBalance, bondAmount, shouldWithdraw''])) \<and>
      (getAvailableCreditForBond this w d - getVaultBalance this w d < b \<longrightarrow>
         withdrawFromVaultIfNeeded this d b w =
           ((case fst (withdrawFromVaultAndStake this d (getVaultBalance this w d) w) of
               None \<Rightarrow> Inr () | Some err \<Rightarrow> Inl err),
            snd (withdrawFromVaultAndStake this d (getVaultBalance this w d) w),
            [Log LDebug ''availableCredit, vaultBalance, bondAmount, shouldWithdraw'',
             NotifyInfo ''attempting withdrawFromVaultAndStake'',
             Log LInfo ''attempting withdrawFromVaultAndStake'',
             WithdrawFromVaultAndStake d (getVaultBalance this w d)] @
            (case fst (withdrawFromVaultAndStake this d (getVaultBalance this w d) w) of
               None \<Rightarrow> []
             | Some err \<Rightarrow> [NotifyError ''withdrawFromVaultAndStake error'',
                             Log LError ''withdrawFromVaultAndStake error'']))))"
proof -
  have flag: "autoWithdraw this d =
      (\<exists>m. vaultConfig this (tokenSymbol this) = Some m \<and> m (chainIdToSlug this d) = Some (Some True))"
    by (auto simp: autoWithdraw_def split: option.splits)
  show ?thesis
    unfolding flag[symmetric]
    by (auto simp: withdrawFromVaultIfNeeded_def Let_def split: prod.splits option.splits)
qed

theorem vault_withdrawal_decision_witness:
  "withdrawFromVaultIfNeeded demoWatcher 1 7 demoWorld = (Inr (), demoWorld, []) \<and>
   withdrawFromVaultIfNeeded demoWatcher 10 7 demoWorld = (Inr (), demoWorld, []) \<and>
   getAvailableCreditForBond demoWatcher demoWorld 137 - getVaultBalance demoWatcher demoWorld 137 = 7 \<and>
   withdrawFromVaultIfNeeded demoWatcher 137 7 demoWorld =
     (Inr (), demoWorld, [Log LDebug ''availableCredit, vaultBalance, bondAmount, shouldWithdraw'']) \<and>
   filter isWithdraw (snd (snd (withdrawFromVaultIfNeeded demoWatcher 137 8 demoWorld))) = [WithdrawFromVaultAndStake 137 4] \<and>
   fst (withdrawFromVaultIfNeeded demoWatcher 137 8 demoWorld) = Inr () \<and>
   fst (snd (withdrawFromVaultIfNeeded demoWatcher 137 8 demoWorld)) = demoWorld\<lparr>w_vault := 0\<rparr>"
proof -
  have n1: "\<not> (\<exists>m. vaultConfig demoWatcher (tokenSymbol demoWatcher) = Some m \<and>
                    m (chainIdToSlug demoWatcher 1) = Some (Some True))"
    by (simp add: demoWatcher_def)
  have n2: "\<not> (\<exists>m. vaultConfig demoWatcher (tokenSymbol demoWatcher) = Some m \<and>
                    m (chainIdToSlug demoWatcher 10) = Some (Some True))"
    by (simp add: demoWatcher_def)
  have y: "\<exists>m. vaultConfig demoWatcher (tokenSymbol demoWatcher) = Some m \<and>
                    m (chainIdToSlug demoWatcher 137) = Some (Some True)"
    by (simp add: demoWatcher_def)
  have v: "getAvailableCreditForBond demoWatcher demoWorld 137 = 11" "getVaultBalance demoWatcher demoWorld 137 = 4"
    by code_simp+
  have op: "withdrawFromVaultAndStake demoWatcher 137 4 demoWorld = (None, demoWorld\<lparr>w_vault := 0\<rparr>)"
    by (simp add: demoWatcher_def demoWorld_def)
  show ?thesis
    using vault_withdrawal_decision[of demoWatcher 1 7 demoWorld]
      vault_withdrawal_decision[of demoWatcher 10 7 demoWorld]
      vault_withdrawal_decision[of demoWatcher 137 7 demoWorld]
      vault_withdrawal_decision[of demoWatcher 137 8 demoWorld]
      n1 n2 y v op by simp
qed

section \<open>Intent, revalidation and dispatch\<close>

lemma isPre_events_log:
  "list_all isLog (snd (isPreTransactionDataValid this w h d a))"
  by (auto simp: isPreTransactionDataValid_def Let_def split: option.splits if_splits sum.splits)

lemma takeWhile_all:
  "filter P xs = [] \<Longrightarrow> takeWhile (\<lambda>e. \<not> P e) xs = xs"
  using takeWhile_skip[of P xs "[]"] by simp

lemma send_filters:
  assumes "sendBondTransferRoot this h d a w = (res, w', evs)"
  shows "filter isSentBondTxAtWrite evs = []" and "filter isNotifyError evs = []"
    and "filter isBondTx evs =
           (if fst (isPreTransactionDataValid this w h d a) = Inr True then [BondTransferRoot h d a] else [])"
    and "fst (isPreTransactionDataValid this w h d a) = Inr False \<Longrightarrow>
           res = Inl (Error ''Possible reorg detected. bondTransferRoot tx not sent'') \<and> w' = w"
    and "fst (isPreTransactionDataValid this w h d a) = Inr True \<Longrightarrow>
           res = fst (bondTransferRoot this h d a w) \<and> w' = snd (bondTransferRoot this h d a w)"
  using send_cases[OF assms] log_filters[OF isPre_events_log[of this w h d a]]
  by auto

text \<open>
  Claim C3: the send phase starts with the write of \<^verbatim>\<open>sentBondTxAt\<close>. In every
  evaluation no bonding transaction is dispatched before that write; an evaluation that
  makes the write makes it once, with the clock of the world the vault step left; the
  bonding transaction is dispatched, once, exactly when the write was made and the
  reorg-safety validation, run on the world after the write, returns true; and when that
  validation returns false the evaluation raises the reorg error, sends no transaction
  and leaves the world as the write left it.
\<close>

theorem intent_written_before_dispatch:
  assumes run: "checkTransfersCommitted this rid h a d c s ids w = (res, w', evs)"
      and w1: "w1 = fst (snd (withdrawFromVaultIfNeeded this d (getBondForTransferAmount this w a) w))"
      and w2: "w2 = update this rid (SentBondTxAt (dateNow this w1)) w1"
  shows "\<not> list_ex isBondTx (takeWhile (\<lambda>e. \<not> isSentBondTxAtWrite e) evs) \<and>
         (list_ex isSentBondTxAtWrite evs \<longrightarrow>
            filter isSentBondTxAtWrite evs = [DbUpdate rid (SentBondTxAt (dateNow this w1))]) \<and>
         filter isBondTx evs =
           (if list_ex isSentBondTxAtWrite evs \<and> fst (isPreTransactionDataValid this w2 h d a) = Inr True
            then [BondTransferRoot h d a] else []) \<and>
         (list_ex isSentBondTxAtWrite evs \<and> fst (isPreTransactionDataValid this w2 h d a) = Inr False \<longrightarrow>
            res = Inl (Error ''Possible reorg detected. bondTransferRoot tx not sent'') \<and> w' = w2)"
proof (cases rule: checkTransfersCommitted_cases[where this=this and c=c and w=w and rid=rid and h=h and ids=ids and a=a and d=d and s=s])
  case early
  with run show ?thesis by auto
next
  case bonded
  with run show ?thesis by auto
next
  case mismatch
  with run log_filters[OF gateLogs_log[of ids]] show ?thesis
    by (auto simp: list_ex_filter takeWhile_all)
next
  case credit
  with run log_filters[OF gateLogs_log[of ids]] show ?thesis
    by (auto simp: list_ex_filter takeWhile_all)
next
  case dry
  with run log_filters[OF gateLogs_log[of ids]] show ?thesis
    by (auto simp: list_ex_filter takeWhile_all)
next
  case (vault_error e wV evsV)
  note V = withdraw_filters(1,2)[OF vault_error(6)]
  from run vault_error(7) have evs: "evs = gateLogs ids @ evsV" by simp
  show ?thesis
    unfolding evs using V log_filters[OF gateLogs_log[of ids]]
    by (simp add: list_ex_filter takeWhile_all)
next
  case (send wV evsV resS w3 evsS)
  have wV: "wV = w1" using send(6) w1 by simp
  note V = withdraw_filters(1,2)[OF send(6)]
  note S = send_filters[OF send(7)[unfolded wV w2[symmetric]]]
  note G = log_filters[OF gateLogs_log[of ids]]
  have tail: "filter isBondTx (case resS of Inr tx \<Rightarrow> [Log LInfo ''L1 bondTransferRoot'', NotifyInfo ''L1 bondTransferRoot'']
           | Inl err \<Rightarrow> [Log LError ''sendBondTransferRoot error:'']) = []"
    "filter isSentBondTxAtWrite (case resS of Inr tx \<Rightarrow> [Log LInfo ''L1 bondTransferRoot'', NotifyInfo ''L1 bondTransferRoot'']
           | Inl err \<Rightarrow> [Log LError ''sendBondTransferRoot error:'']) = []"
    by (cases resS; simp)+
  from run send(8) have evs: "evs = gateLogs ids @ evsV @
          [Log LDebug ''attempting to bond transfer root id'', DbUpdate rid (SentBondTxAt (dateNow this w1))] @
          evsS @
          (case resS of
             Inr tx \<Rightarrow> [Log LInfo ''L1 bondTransferRoot'', NotifyInfo ''L1 bondTransferRoot'']
           | Inl err \<Rightarrow> [Log LError ''sendBondTransferRoot error:''])"
    and res: "res = (case resS of Inr tx \<Rightarrow> Inr (Sent tx) | Inl err \<Rightarrow> Inl err)" and w': "w' = w3"
    unfolding wV by simp_all
  have before: "takeWhile (\<lambda>e. \<not> isSentBondTxAtWrite e) evs =
                  gateLogs ids @ evsV @ [Log LDebug ''attempting to bond transfer root id'']"
    unfolding evs using G(2) V(2) by (simp add: takeWhile_skip)
  have writes: "filter isSentBondTxAtWrite evs = [DbUpdate rid (SentBondTxAt (dateNow this w1))]"
    unfolding evs using G(2) V(2) S(1) tail(2) by simp
  have txs: "filter isBondTx evs =
           (if fst (isPreTransactionDataValid this w2 h d a) = Inr True then [BondTransferRoot h d a] else [])"
    unfolding evs using G(1) V(1) S(3) tail(1) by simp
  have reorg: "fst (isPreTransactionDataValid this w2 h d a) = Inr False \<Longrightarrow>
            res = Inl (Error ''Possible reorg detected. bondTransferRoot tx not sent'') \<and> w' = w2"
    using S(4) res w' by simp
  show ?thesis
    unfolding before using writes txs reorg G(1) V(1) by (simp add: list_ex_filter)
qed

theorem intent_written_before_dispatch_witness:
  "filter isSentBondTxAtWrite (snd (snd (checkTransfersCommitted demoWatcher (demoRootId ''0xAb'' 10) ''0xAb'' 10 137 100 10
        (Some [''0x'', ''Ab'']) demoWorld))) = [DbUpdate (demoRootId ''0xAb'' 10) (SentBondTxAt 161000)] \<and>
   filter isBondTx (snd (snd (checkTransfersCommitted demoWatcher (demoRootId ''0xAb'' 10) ''0xAb'' 10 137 100 10
        (Some [''0x'', ''Ab'']) demoWorld))) = [BondTransferRoot ''0xAb'' 137 10] \<and>
   fst (checkTransfersCommitted demoWatcher (demoRootId ''0xAb'' 10) ''0xAb'' 10 137 100 10
        (Some [''0x'', ''Ab'']) (demoWorld\<lparr>w_roots := [demoRoot, demoRoot2]\<rparr>))
     = Inl (Error ''Possible reorg detected. bondTransferRoot tx not sent'') \<and>
   filter isBondTx (snd (snd (checkTransfersCommitted demoWatcher (demoRootId ''0xAb'' 10) ''0xAb'' 10 137 100 10
        (Some [''0x'', ''Ab'']) (demoWorld\<lparr>w_roots := [demoRoot, demoRoot2]\<rparr>)))) = []"
proof -
  let ?rid = "demoRootId ''0xAb'' 10"
  let ?D = "demoWorld\<lparr>w_roots := [demoRoot, demoRoot2]\<rparr>"
  let ?E1 = "checkTransfersCommitted demoWatcher ?rid ''0xAb'' 10 137 100 10 (Some [''0x'', ''Ab'']) demoWorld"
  let ?E2 = "checkTransfersCommitted demoWatcher ?rid ''0xAb'' 10 137 100 10 (Some [''0x'', ''Ab'']) ?D"
  let ?V1 = "fst (snd (withdrawFromVaultIfNeeded demoWatcher 137 (getBondForTransferAmount demoWatcher demoWorld 10) demoWorld))"
  let ?V2 = "fst (snd (withdrawFromVaultIfNeeded demoWatcher 137 (getBondForTransferAmount demoWatcher ?D 10) ?D))"
  have run1: "?E1 = (fst ?E1, fst (snd ?E1), snd (snd ?E1))" by simp
  have run2: "?E2 = (fst ?E2, fst (snd ?E2), snd (snd ?E2))" by simp
  have r1: "list_ex isSentBondTxAtWrite (snd (snd ?E1))" by code_simp
  have r2: "list_ex isSentBondTxAtWrite (snd (snd ?E2))" by code_simp
  have t1: "dateNow demoWatcher ?V1 = 161000" by code_simp
  have v1: "fst (isPreTransactionDataValid demoWatcher
                  (update demoWatcher ?rid (SentBondTxAt (dateNow demoWatcher ?V1)) ?V1) ''0xAb'' 137 10) = Inr True"
    by code_simp
  have v2: "fst (isPreTransactionDataValid demoWatcher
                  (update demoWatcher ?rid (SentBondTxAt (dateNow demoWatcher ?V2)) ?V2) ''0xAb'' 137 10) = Inr False"
    by code_simp
  show ?thesis
    using intent_written_before_dispatch[OF run1 refl refl] intent_written_before_dispatch[OF run2 refl refl]
      r1 r2 t1 v1 v2 by simp
qed

lemma dispatched_path:
  assumes run: "checkTransfersCommitted this rid h a d c s ids w = (res, w', evs)"
      and w1: "w1 = fst (snd (withdrawFromVaultIfNeeded this d (getBondForTransferAmount this w a) w))"
      and w2: "w2 = update this rid (SentBondTxAt (dateNow this w1)) w1"
      and dispatched: "list_ex isBondTx evs"
  shows "fst (withdrawFromVaultIfNeeded this d (getBondForTransferAmount this w a) w) = Inr ()"
    and "fst (isPreTransactionDataValid this w2 h d a) = Inr True"
    and "res = (case fst (bondTransferRoot this h d a w2) of Inr tx \<Rightarrow> Inr (Sent tx) | Inl err \<Rightarrow> Inl err)"
    and "w' = snd (bondTransferRoot this h d a w2)"
    and "evs = gateLogs ids @ snd (snd (withdrawFromVaultIfNeeded this d (getBondForTransferAmount this w a) w)) @
          [Log LDebug ''attempting to bond transfer root id'', DbUpdate rid (SentBondTxAt (dateNow this w1))] @
          snd (isPreTransactionDataValid this w2 h d a) @ [BondTransferRoot h d a] @
          (case fst (bondTransferRoot this h d a w2) of
             Inr tx \<Rightarrow> [Log LInfo ''L1 bondTransferRoot'', NotifyInfo ''L1 bondTransferRoot'']
           | Inl err \<Rightarrow> [Log LError ''sendBondTransferRoot error:''])"
proof -
  note G = log_filters[OF gateLogs_log[of ids]]
  have "fst (withdrawFromVaultIfNeeded this d (getBondForTransferAmount this w a) w) = Inr () \<and>
        fst (isPreTransactionDataValid this w2 h d a) = Inr True \<and>
        res = (case fst (bondTransferRoot this h d a w2) of Inr tx \<Rightarrow> Inr (Sent tx) | Inl err \<Rightarrow> Inl err) \<and>
        w' = snd (bondTransferRoot this h d a w2) \<and>
        evs = gateLogs ids @ snd (snd (withdrawFromVaultIfNeeded this d (getBondForTransferAmount this w a) w)) @
          [Log LDebug ''attempting to bond transfer root id'', DbUpdate rid (SentBondTxAt (dateNow this w1))] @
          snd (isPreTransactionDataValid this w2 h d a) @ [BondTransferRoot h d a] @
          (case fst (bondTransferRoot this h d a w2) of
             Inr tx \<Rightarrow> [Log LInfo ''L1 bondTransferRoot'', NotifyInfo ''L1 bondTransferRoot'']
           | Inl err \<Rightarrow> [Log LError ''sendBondTransferRoot error:''])"
  proof (cases rule: checkTransfersCommitted_cases[where this=this and c=c and w=w and rid=rid and h=h and ids=ids and a=a and d=d and s=s])
    case early
    with run dispatched show ?thesis by auto
  next
    case bonded
    with run dispatched show ?thesis by auto
  next
    case mismatch
    with run dispatched G show ?thesis by (auto simp: list_ex_filter)
  next
    case credit
    with run dispatched G show ?thesis by (auto simp: list_ex_filter)
  next
    case dry
    with run dispatched G show ?thesis by (auto simp: list_ex_filter)
  next
    case (vault_error e wV evsV)
    from run vault_error(7) have "evs = gateLogs ids @ evsV" by simp
    with dispatched G withdraw_filters(1)[OF vault_error(6)] show ?thesis
      by (simp add: list_ex_filter)
  next
    case (send wV evsV resS w3 evsS)
    have wV: "wV = w1" using send(6) w1 by simp
    note S = send(7)[unfolded wV w2[symmetric]]
    from run send(8) have evs: "evs = gateLogs ids @ evsV @
          [Log LDebug ''attempting to bond transfer root id'', DbUpdate rid (SentBondTxAt (dateNow this w1))] @
          evsS @
          (case resS of
             Inr tx \<Rightarrow> [Log LInfo ''L1 bondTransferRoot'', NotifyInfo ''L1 bondTransferRoot'']
           | Inl err \<Rightarrow> [Log LError ''sendBondTransferRoot error:''])"
      and res: "res = (case resS of Inr tx \<Rightarrow> Inr (Sent tx) | Inl err \<Rightarrow> Inl err)" and w': "w' = w3"
      unfolding wV by simp_all
    have tail: "filter isBondTx (case resS of Inr tx \<Rightarrow> [Log LInfo ''L1 bondTransferRoot'', NotifyInfo ''L1 bondTransferRoot'']
           | Inl err \<Rightarrow> [Log LError ''sendBondTransferRoot error:'']) = []"
      by (cases resS; simp)
    have "filter isBondTx evsS \<noteq> []"
      using dispatched G(1) withdraw_filters(1)[OF send(6)] tail unfolding evs
      by (simp add: list_ex_filter)
    then have valid: "fst (isPreTransactionDataValid this w2 h d a) = Inr True"
      using send_filters(3)[OF S] by (simp split: if_splits)
    then have "resS = fst (bondTransferRoot this h d a w2)" "w3 = snd (bondTransferRoot this h d a w2)"
      "evsS = snd (isPreTransactionDataValid this w2 h d a) @ [BondTransferRoot h d a]"
      using send_cases[OF S] by auto
    with valid send(6) evs res w' show ?thesis by simp
  qed
  then show "fst (withdrawFromVaultIfNeeded this d (getBondForTransferAmount this w a) w) = Inr ()"
    and "fst (isPreTransactionDataValid this w2 h d a) = Inr True"
    and "res = (case fst (bondTransferRoot this h d a w2) of Inr tx \<Rightarrow> Inr (Sent tx) | Inl err \<Rightarrow> Inl err)"
    and "w' = snd (bondTransferRoot this h d a w2)"
    and "evs = gateLogs ids @ snd (snd (withdrawFromVaultIfNeeded this d (getBondForTransferAmount this w a) w)) @
          [Log LDebug ''attempting to bond transfer root id'', DbUpdate rid (SentBondTxAt (dateNow this w1))] @
          snd (isPreTransactionDataValid this w2 h d a) @ [BondTransferRoot h d a] @
          (case fst (bondTransferRoot this h d a w2) of
             Inr tx \<Rightarrow> [Log LInfo ''L1 bondTransferRoot'', NotifyInfo ''L1 bondTransferRoot'']
           | Inl err \<Rightarrow> [Log LError ''sendBondTransferRoot error:''])"
    by blast+
qed

text \<open>
  Claim C8, as stated: a failed dispatch is notified through the notifier. The \<^verbatim>\<open>catch\<close>
  around \<^verbatim>\<open>sendBondTransferRoot\<close> logs and rethrows, and makes no notifier call: in a
  world where the hub rejects the transaction, the evaluation dispatches it, ends with
  the hub's error, and no \<^verbatim>\<open>notifier.error\<close> is among its effects.
\<close>

theorem failed_dispatch_counterexample:
  "list_ex isBondTx (snd (snd (checkTransfersCommitted demoWatcher (demoRootId ''0xAb'' 10) ''0xAb'' 10 137 100 10
        (Some [''0x'', ''Ab'']) (demoWorld\<lparr>w_txFails := True\<rparr>)))) \<and>
   fst (checkTransfersCommitted demoWatcher (demoRootId ''0xAb'' 10) ''0xAb'' 10 137 100 10
        (Some [''0x'', ''Ab'']) (demoWorld\<lparr>w_txFails := True\<rparr>)) = Inl (Error ''transaction failed'') \<and>
   \<not> list_ex isNotifyError (snd (snd (checkTransfersCommitted demoWatcher (demoRootId ''0xAb'' 10) ''0xAb'' 10 137 100 10
        (Some [''0x'', ''Ab'']) (demoWorld\<lparr>w_txFails := True\<rparr>))))"
  by code_simp

lemma dropWhile_skip:
  "filter P xs = [] \<Longrightarrow> dropWhile (\<lambda>e. \<not> P e) (xs @ ys) = dropWhile (\<lambda>e. \<not> P e) ys"
  by (induction xs) (auto split: if_splits)

lemma log_no_notify:
  "list_all isLog xs \<Longrightarrow> filter isNotify xs = []"
  by (induction xs) (auto elim: isLog.elims)

text \<open>
  Claim C8, amended: when the dispatch of the bonding transaction fails, the failure is
  logged as an error and the error of the dispatch is propagated to the caller as it
  is. The evaluation makes no notifier call for it: the error log is the one effect that
  follows the dispatch, and the only notifier calls of the whole evaluation are those
  the vault step made before the intent was written. The transaction was dispatched
  once, not retried.
\<close>

theorem failed_dispatch_is_logged_and_rethrown:
  assumes run: "checkTransfersCommitted this rid h a d c s ids w = (res, w', evs)"
      and w1: "w1 = fst (snd (withdrawFromVaultIfNeeded this d (getBondForTransferAmount this w a) w))"
      and w2: "w2 = update this rid (SentBondTxAt (dateNow this w1)) w1"
      and dispatched: "list_ex isBondTx evs"
      and fails: "fst (bondTransferRoot this h d a w2) = Inl err"
  shows "res = Inl err \<and>
         last evs = Log LError ''sendBondTransferRoot error:'' \<and>
         \<not> list_ex isNotifyError evs \<and>
         filter isBondTx evs = [BondTransferRoot h d a] \<and>
         w' = snd (bondTransferRoot this h d a w2) \<and>
         evs = gateLogs ids @
               snd (snd (withdrawFromVaultIfNeeded this d (getBondForTransferAmount this w a) w)) @
               [Log LDebug ''attempting to bond transfer root id'',
                DbUpdate rid (SentBondTxAt (dateNow this w1))] @
               snd (isPreTransactionDataValid this w2 h d a) @
               [BondTransferRoot h d a, Log LError ''sendBondTransferRoot error:''] \<and>
         dropWhile (\<lambda>e. \<not> isBondTx e) evs =
           [BondTransferRoot h d a, Log LError ''sendBondTransferRoot error:''] \<and>
         filter isNotify evs =
           filter isNotify (snd (snd (withdrawFromVaultIfNeeded this d (getBondForTransferAmount this w a) w))) \<and>
         \<not> list_ex isNotify (drop (length (gateLogs ids) +
               length (snd (snd (withdrawFromVaultIfNeeded this d (getBondForTransferAmount this w a) w)))) evs)"
proof -
  note P = dispatched_path[OF run w1 w2 dispatched]
  note G = log_filters[OF gateLogs_log[of ids]]
  note L = log_filters[OF isPre_events_log[of this w2 h d a]]
  note GN = log_no_notify[OF gateLogs_log[of ids]]
  note LN = log_no_notify[OF isPre_events_log[of this w2 h d a]]
  obtain wV evsV where V: "withdrawFromVaultIfNeeded this d (getBondForTransferAmount this w a) w = (Inr (), wV, evsV)"
    using P(1) by (metis prod.collapse)
  note VF = withdraw_filters[OF V]
  have evs: "evs = gateLogs ids @ evsV @
          [Log LDebug ''attempting to bond transfer root id'', DbUpdate rid (SentBondTxAt (dateNow this w1))] @
          snd (isPreTransactionDataValid this w2 h d a) @ [BondTransferRoot h d a] @
          [Log LError ''sendBondTransferRoot error:'']"
    using P(5) V fails by simp
  have "res = Inl err" using P(3) fails by simp
  moreover have "last evs = Log LError ''sendBondTransferRoot error:''"
    unfolding evs by simp
  moreover have "\<not> list_ex isNotifyError evs"
    unfolding evs using G(3) L(3) VF(3) by (simp add: list_ex_filter)
  moreover have "filter isBondTx evs = [BondTransferRoot h d a]"
    unfolding evs using G(1) L(1) VF(1) by simp
  moreover have "dropWhile (\<lambda>e. \<not> isBondTx e) evs =
           [BondTransferRoot h d a, Log LError ''sendBondTransferRoot error:'']"
  proof -
    have "filter isBondTx (gateLogs ids @ evsV @
          [Log LDebug ''attempting to bond transfer root id'', DbUpdate rid (SentBondTxAt (dateNow this w1))] @
          snd (isPreTransactionDataValid this w2 h d a)) = []"
      using G(1) L(1) VF(1) by simp
    from dropWhile_skip[OF this, of "[BondTransferRoot h d a, Log LError ''sendBondTransferRoot error:'']"]
    show ?thesis unfolding evs by simp
  qed
  moreover have "filter isNotify evs = filter isNotify evsV"
    unfolding evs using GN LN by simp
  moreover have "\<not> list_ex isNotify (drop (length (gateLogs ids) + length evsV) evs)"
    unfolding evs using LN by (simp add: list_ex_filter)
  ultimately show ?thesis using P(4) V evs by simp
qed

theorem failed_dispatch_is_logged_and_rethrown_witness:
  "fst (checkTransfersCommitted demoWatcher (demoRootId ''0xAb'' 10) ''0xAb'' 10 137 100 10
        (Some [''0x'', ''Ab'']) (demoWorld\<lparr>w_txFails := True\<rparr>)) = Inl (Error ''transaction failed'') \<and>
   last (snd (snd (checkTransfersCommitted demoWatcher (demoRootId ''0xAb'' 10) ''0xAb'' 10 137 100 10
        (Some [''0x'', ''Ab'']) (demoWorld\<lparr>w_txFails := True\<rparr>)))) = Log LError ''sendBondTransferRoot error:'' \<and>
   filter isBondTx (snd (snd (checkTransfersCommitted demoWatcher (demoRootId ''0xAb'' 10) ''0xAb'' 10 137 100 10
        (Some [''0x'', ''Ab'']) (demoWorld\<lparr>w_txFails := True\<rparr>)))) = [BondTransferRoot ''0xAb'' 137 10] \<and>
   dropWhile (\<lambda>e. \<not> isBondTx e) (snd (snd (checkTransfersCommitted demoWatcher (demoRootId ''0xAb'' 10) ''0xAb'' 10 137 100 10
        (Some [''0x'', ''Ab'']) (demoWorld\<lparr>w_txFails := True\<rparr>)))) =
     [BondTransferRoot ''0xAb'' 137 10, Log LError ''sendBondTransferRoot error:'']"
proof -
  let ?rid = "demoRootId ''0xAb'' 10"
  let ?F = "demoWorld\<lparr>w_txFails := True\<rparr>"
  let ?E = "checkTransfersCommitted demoWatcher ?rid ''0xAb'' 10 137 100 10 (Some [''0x'', ''Ab'']) ?F"
  let ?V = "fst (snd (withdrawFromVaultIfNeeded demoWatcher 137 (getBondForTransferAmount demoWatcher ?F 10) ?F))"
  have run: "?E = (fst ?E, fst (snd ?E), snd (snd ?E))" by simp
  have dis: "list_ex isBondTx (snd (snd ?E))" by code_simp
  have fails: "fst (bondTransferRoot demoWatcher ''0xAb'' 137 10
                 (update demoWatcher ?rid (SentBondTxAt (dateNow demoWatcher ?V)) ?V)) = Inl (Error ''transaction failed'')"
    by code_simp
  show ?thesis
    using failed_dispatch_is_logged_and_rethrown[OF run refl refl dis fails] by blast
qed

end
